theory Spec2Isabelle
  imports Main
begin

section \<open>The error classifier of \<^verbatim>\<open>src/services/errorHandler.ts\<close>\<close>

text \<open>
  The module exports one function, \<^verbatim>\<open>handleApiError(error: unknown): string\<close>. It logs
  the error, hands it to the admin webhook, turns it into a message, derives an error code
  from the message by a cascade of heuristics, possibly dispatches one event on the event
  bus, and returns a short text for the user.

  A message is a \<^typ>\<open>string\<close>: a list of code units below 256, so the development covers
  messages over the Latin-1 range, where \<^verbatim>\<open>toLowerCase\<close> is a map on single code units.
  Strings that JSON escapes can build hold arbitrary UTF-16 code units and are lists of
  natural numbers.
\<close>

subsection \<open>String primitives\<close>

type_synonym utf16 = "nat list"

definition utf16 :: "string \<Rightarrow> utf16" where
  "utf16 s = map of_char s"

text \<open>
  \<^verbatim>\<open>String.prototype.toLowerCase\<close> on code units below 256: the letters A to Z and the
  letters U+00C0 to U+00DE other than the multiplication sign U+00D7 move up by 32, which
  sets the bit of weight 32; every other code unit stays.
\<close>

definition isUpperCase :: "char \<Rightarrow> bool" where
  "isUpperCase c =
     (let n = (of_char c :: nat)
      in (65 \<le> n \<and> n \<le> 90) \<or> (192 \<le> n \<and> n \<le> 222 \<and> n \<noteq> 215))"

fun setBit5 :: "char \<Rightarrow> char" where
  "setBit5 (Char b0 b1 b2 b3 b4 b5 b6 b7) = Char b0 b1 b2 b3 b4 True b6 b7"

definition lowerCaseChar :: "char \<Rightarrow> char" where
  "lowerCaseChar c = (if isUpperCase c then setBit5 c else c)"

definition toLowerCase :: "string \<Rightarrow> string" where
  "toLowerCase s = map lowerCaseChar s"

text \<open>\<^verbatim>\<open>s.startsWith(t)\<close> and \<^verbatim>\<open>s.includes(t)\<close>.\<close>

fun startsWith :: "string \<Rightarrow> string \<Rightarrow> bool" where
  "startsWith s [] = True"
| "startsWith [] (d # ds) = False"
| "startsWith (c # cs) (d # ds) = (c = d \<and> startsWith cs ds)"

fun includesStr :: "string \<Rightarrow> string \<Rightarrow> bool" where
  "includesStr [] t = (t = [])"
| "includesStr (c # cs) t = (startsWith (c # cs) t \<or> includesStr cs t)"

text \<open>\<^verbatim>\<open>message.split('\n')[0]\<close>: the text before the first line feed, the whole text
  when there is none.\<close>

definition firstLineOf :: "string \<Rightarrow> string" where
  "firstLineOf s = takeWhile (\<lambda>c. c \<noteq> CHR 0x0A) s"

subsection \<open>The two regular expressions\<close>

text \<open>
  \<^verbatim>\<open>message.match(/(\{.*\})/s)\<close>. The match starts at the first opening brace; the
  greedy \<^verbatim>\<open>.*\<close> (with the flag \<^verbatim>\<open>s\<close> a line feed is matched too) runs to the end and
  backtracks to the last closing brace behind that opening brace. Without such a closing
  brace no later opening brace has one either, and there is no match.
\<close>

definition jsonMatch :: "string \<Rightarrow> string option" where
  "jsonMatch message =
     (case dropWhile (\<lambda>c. c \<noteq> CHR ''{'') message of
        [] \<Rightarrow> None
      | brace # rest \<Rightarrow>
          (case rev (dropWhile (\<lambda>c. c \<noteq> CHR ''}'') (rev rest)) of
             [] \<Rightarrow> None
           | inner \<Rightarrow> Some (brace # inner)))"

text \<open>
  \<^verbatim>\<open>message.match(/\[(\d{3})\]|\b(\d{3})\b/)\<close>. At each position, from the left, the
  bracketed alternative is tried before the standalone one. \<^verbatim>\<open>\d\<close> is an ASCII digit and
  \<^verbatim>\<open>\b\<close> a boundary between a word character (letter, digit, underscore) and anything
  else, the two ends of the text included.
\<close>

definition isDigit :: "char \<Rightarrow> bool" where
  "isDigit c = (let n = (of_char c :: nat) in 48 \<le> n \<and> n \<le> 57)"

definition isWordChar :: "char \<Rightarrow> bool" where
  "isWordChar c =
     (let n = (of_char c :: nat)
      in (48 \<le> n \<and> n \<le> 57) \<or> (65 \<le> n \<and> n \<le> 90) \<or> (97 \<le> n \<and> n \<le> 122) \<or> n = 95)"

fun bracketedCode :: "string \<Rightarrow> string option" where
  "bracketedCode (b # d1 # d2 # d3 # e # rest) =
     (if b = CHR ''['' \<and> isDigit d1 \<and> isDigit d2 \<and> isDigit d3 \<and> e = CHR '']''
      then Some [d1, d2, d3] else None)"
| "bracketedCode s = None"

fun standaloneCode :: "bool \<Rightarrow> string \<Rightarrow> string option" where
  "standaloneCode afterWord (d1 # d2 # d3 # rest) =
     (if \<not> afterWord \<and> isDigit d1 \<and> isDigit d2 \<and> isDigit d3
         \<and> (case rest of [] \<Rightarrow> True | c # _ \<Rightarrow> \<not> isWordChar c)
      then Some [d1, d2, d3] else None)"
| "standaloneCode afterWord s = None"

fun codeMatchFrom :: "bool \<Rightarrow> string \<Rightarrow> string option" where
  "codeMatchFrom afterWord [] = None"
| "codeMatchFrom afterWord (c # cs) =
     (case bracketedCode (c # cs) of
        Some code \<Rightarrow> Some code
      | None \<Rightarrow>
          (case standaloneCode afterWord (c # cs) of
             Some code \<Rightarrow> Some code
           | None \<Rightarrow> codeMatchFrom (isWordChar c) cs))"

definition codeMatch :: "string \<Rightarrow> string option" where
  "codeMatch message = codeMatchFrom False message"

subsection \<open>Numbers: binary64 and \<^verbatim>\<open>Number.prototype.toString\<close>\<close>

text \<open>
  A JSON numeral denotes \<open>digits \<times> 10 ^ scale\<close>, negated or not; \<^verbatim>\<open>JSON.parse\<close> yields
  the binary64 value nearest to it (ties to the even significand). A pair \<open>(a, b)\<close> of
  integers, \<open>a\<close> not negative and \<open>b\<close> positive, stands for the fraction \<open>a / b\<close>.
\<close>

type_synonym fraction = "int \<times> int"

definition timesPower :: "int \<Rightarrow> fraction \<Rightarrow> int \<Rightarrow> fraction" where
  "timesPower base q k =
     (case q of (a, b) \<Rightarrow>
        if 0 \<le> k then (a * base ^ nat k, b) else (a, b * base ^ nat (- k)))"

definition fractionLe :: "fraction \<Rightarrow> fraction \<Rightarrow> bool" where
  "fractionLe p q = (case p of (a, b) \<Rightarrow> case q of (c, d) \<Rightarrow> a * d \<le> c * b)"

text \<open>The number of digits of \<open>a\<close> in the base, zero for \<open>a < 1\<close>.\<close>

function digitCount :: "int \<Rightarrow> int \<Rightarrow> int" where
  "digitCount base a = (if base < 2 \<or> a < 1 then 0 else 1 + digitCount base (a div base))"
  by pat_completeness auto
termination
proof (relation "measure (\<lambda>(base, a). nat a)")
  show "wf (measure (\<lambda>(base, a). nat a))" by simp
next
  fix base a :: int
  assume "\<not> (base < 2 \<or> a < 1)"
  then have "2 \<le> base" and "1 \<le> a" by simp_all
  then have "a div base < a" by (simp add: int_div_less_self)
  then show "((base, a div base), (base, a)) \<in> measure (\<lambda>(base, a). nat a)"
    using \<open>1 \<le> a\<close> by simp
qed

declare digitCount.simps [simp del]

text \<open>The exponent \<open>e\<close> with \<open>base ^ e \<le> a / b < base ^ (e + 1)\<close>, for positive \<open>a\<close>.\<close>

definition floorLog :: "int \<Rightarrow> fraction \<Rightarrow> int" where
  "floorLog base q =
     (case q of (a, b) \<Rightarrow>
        let e = digitCount base a - digitCount base b
        in if fractionLe (timesPower base (1, 1) e) (a, b) then e else e - 1)"

definition roundHalfEven :: "fraction \<Rightarrow> int" where
  "roundHalfEven q =
     (case q of (a, b) \<Rightarrow>
        let n = a div b; r = a mod b
        in if 2 * r < b then n
           else if b < 2 * r then n + 1
           else if n mod 2 = 0 then n else n + 1)"

text \<open>
  \<open>Finite n p\<close> is the binary64 value \<open>n \<times> 2 ^ p\<close>: a normal number has
  \<open>2 ^ 52 \<le> n < 2 ^ 53\<close> and \<open>- 1074 \<le> p \<le> 971\<close>, a subnormal one \<open>n < 2 ^ 52\<close> and
  \<open>p = - 1074\<close>, and \<open>n = 0\<close> is zero.
\<close>

datatype binary64 = Finite int int | Infinity

definition toBinary64 :: "fraction \<Rightarrow> binary64" where
  "toBinary64 q =
     (if fst q = 0 then Finite 0 (- 1074)
      else
        let p = max (floorLog 2 q) (- 1022) - 52;
            n = roundHalfEven (timesPower 2 q (- p));
            p' = (if n = 2 ^ 53 then p + 1 else p);
            n' = (if n = 2 ^ 53 then 2 ^ 52 else n)
        in if 971 < p' then Infinity else Finite n' p')"

text \<open>
  \<^verbatim>\<open>Number.prototype.toString\<close> writes the decimal \<open>s \<times> 10 ^ t\<close> with the fewest digits
  that reads back as the same binary64 value. With \<open>k\<close> digits the candidates are the
  \<open>k\<close>-digit decimals just below and just above the value; of two that read back the nearer
  one is taken, the even one on a tie (the standard leaves that last digit to the engine;
  this is the choice of the common engines). Seventeen digits always read back.
\<close>

definition decimalCandidate :: "int \<Rightarrow> int \<Rightarrow> int \<Rightarrow> (int \<times> int) option" where
  "decimalCandidate n p k =
     (let d = timesPower 2 (n, 1) p;
          t = floorLog 10 d - k + 1;
          x = timesPower 10 d (- t);
          lo = fst x div snd x;
          r = fst x mod snd x;
          loBack = (toBinary64 (timesPower 10 (lo, 1) t) = Finite n p);
          hiBack = (toBinary64 (timesPower 10 (lo + 1, 1) t) = Finite n p)
      in if loBack \<and> hiBack then
           (if 2 * r < snd x \<or> (2 * r = snd x \<and> lo mod 2 = 0) then Some (lo, t)
            else Some (lo + 1, t))
         else if loBack then Some (lo, t)
         else if hiBack then Some (lo + 1, t)
         else None)"

function shortestDecimal :: "int \<Rightarrow> int \<Rightarrow> int \<Rightarrow> int \<times> int" where
  "shortestDecimal n p k =
     (case decimalCandidate n p k of
        Some c \<Rightarrow> c
      | None \<Rightarrow>
          if k < 17 then shortestDecimal n p (k + 1)
          else (let d = timesPower 2 (n, 1) p;
                    t = floorLog 10 d - k + 1;
                    x = timesPower 10 d (- t)
                in (fst x div snd x, t)))"
  by pat_completeness auto
termination
  by (relation "measure (\<lambda>(n, p, k). nat (17 - k))") auto

declare shortestDecimal.simps [simp del]

function stripZeros :: "int \<times> int \<Rightarrow> int \<times> int" where
  "stripZeros (s, t) = (if 0 < s \<and> s mod 10 = 0 then stripZeros (s div 10, t + 1) else (s, t))"
  by pat_completeness auto
termination
  by (relation "measure (\<lambda>(s, t). nat s)") auto

declare stripZeros.simps [simp del]

text \<open>The decimal digits of a number that is not negative, the first one first.\<close>

function digitsOf :: "int \<Rightarrow> nat list" where
  "digitsOf n = (if n < 10 then [nat n] else digitsOf (n div 10) @ [nat (n mod 10)])"
  by pat_completeness auto
termination
  by (relation "measure nat") auto

declare digitsOf.simps [simp del]

definition digitChars :: "nat list \<Rightarrow> utf16" where
  "digitChars ds = map (\<lambda>d. 48 + d) ds"

text \<open>
  The layout of \<^verbatim>\<open>Number.prototype.toString\<close> for the digits \<open>ds\<close> of \<open>s\<close> and the
  position \<open>n\<close> of the decimal point (the value is \<open>0.ds \<times> 10 ^ n\<close>): plain digits with
  zeros appended, a point inside, a point after \<open>0\<close> and zeros, or the exponent form when
  \<open>n\<close> is above 21 or below -5.
\<close>

definition layoutDecimal :: "nat list \<Rightarrow> int \<Rightarrow> utf16" where
  "layoutDecimal ds n =
     (let k = int (length ds)
      in if - 6 < n \<and> n \<le> 21 then
           (if k \<le> n then digitChars ds @ replicate (nat (n - k)) 48
            else if 0 < n then digitChars (take (nat n) ds) @ [46] @ digitChars (drop (nat n) ds)
            else [48, 46] @ replicate (nat (- n)) 48 @ digitChars ds)
         else
           (if k = 1 then digitChars ds else digitChars [hd ds] @ [46] @ digitChars (tl ds))
           @ [101] @ (if 0 \<le> n - 1 then [43] else [45]) @ digitChars (digitsOf \<bar>n - 1\<bar>))"

definition numberValue :: "int \<Rightarrow> int \<Rightarrow> binary64" where
  "numberValue digits scale = toBinary64 (timesPower 10 (digits, 1) scale)"

fun layoutShortest :: "int \<times> int \<Rightarrow> utf16" where
  "layoutShortest (s, t) = layoutDecimal (digitsOf s) (int (length (digitsOf s)) + t)"

fun binary64ToString :: "bool \<Rightarrow> binary64 \<Rightarrow> utf16" where
  "binary64ToString negative Infinity =
     (if negative then utf16 ''-Infinity'' else utf16 ''Infinity'')"
| "binary64ToString negative (Finite n p) =
     (if n = 0 then utf16 ''0''
      else (if negative then [45] else []) @ layoutShortest (stripZeros (shortestDecimal n p 1)))"

definition numberToString :: "bool \<Rightarrow> int \<Rightarrow> int \<Rightarrow> utf16" where
  "numberToString negative digits scale = binary64ToString negative (numberValue digits scale)"

subsection \<open>\<^verbatim>\<open>JSON.parse\<close>\<close>

text \<open>
  A parsed value. An object keeps its members in source order, duplicates included; a
  number keeps the sign, the digits and the power of ten of its numeral. The grammar is
  that of ECMA-404, which \<^verbatim>\<open>JSON.parse\<close> accepts without extensions; a text outside it
  is a \<^verbatim>\<open>SyntaxError\<close>. Limits of the engine (nesting depth, memory) are not part of
  the model.
\<close>

datatype json =
    JNull
  | JBoolean bool
  | JNumber bool int int
  | JString utf16
  | JArray "json list"
  | JObject "(utf16 \<times> json) list"

datatype js_error = SyntaxError | TypeError | OtherError

definition isJsonWhitespace :: "char \<Rightarrow> bool" where
  "isJsonWhitespace c = (c = CHR '' '' \<or> c = CHR 0x09 \<or> c = CHR 0x0A \<or> c = CHR 0x0D)"

text \<open>
  A string token runs to the first quote that no backslash escapes; \<open>stringEnd\<close> counts
  the characters before it. The body holds no control character; an escape is a backslash
  with one of \<^verbatim>\<open>" \ / b f n r t\<close> or with \<^verbatim>\<open>u\<close> and four hexadecimal digits, which
  give one code unit.
\<close>

fun stringEnd :: "string \<Rightarrow> nat option" where
  "stringEnd [] = None"
| "stringEnd (c # cs) =
     (if c = CHR 0x22 then Some 0
      else if c = CHR 0x5C then
        (case cs of [] \<Rightarrow> None | e # es \<Rightarrow> map_option (\<lambda>n. n + 2) (stringEnd es))
      else map_option Suc (stringEnd cs))"

definition hexValue :: "char \<Rightarrow> nat option" where
  "hexValue c =
     (let n = (of_char c :: nat)
      in if 48 \<le> n \<and> n \<le> 57 then Some (n - 48)
         else if 65 \<le> n \<and> n \<le> 70 then Some (n - 55)
         else if 97 \<le> n \<and> n \<le> 102 then Some (n - 87)
         else None)"

fun hexUnit :: "nat option \<Rightarrow> nat option \<Rightarrow> nat option \<Rightarrow> nat option \<Rightarrow> nat option" where
  "hexUnit (Some a) (Some b) (Some c) (Some d) = Some (((a * 16 + b) * 16 + c) * 16 + d)"
| "hexUnit a b c d = None"

definition simpleEscape :: "char \<Rightarrow> nat option" where
  "simpleEscape e =
     (if e = CHR 0x22 then Some 34
      else if e = CHR 0x5C then Some 92
      else if e = CHR ''/'' then Some 47
      else if e = CHR ''b'' then Some 8
      else if e = CHR ''f'' then Some 12
      else if e = CHR ''n'' then Some 10
      else if e = CHR ''r'' then Some 13
      else if e = CHR ''t'' then Some 9
      else None)"

fun consUnit :: "nat option \<Rightarrow> utf16 option \<Rightarrow> utf16 option" where
  "consUnit (Some u) (Some us) = Some (u # us)"
| "consUnit u us = None"

fun decodeString :: "string \<Rightarrow> utf16 option" where
  "decodeString [] = Some []"
| "decodeString (c # cs) =
     (if c = CHR 0x5C then
        (case cs of
           [] \<Rightarrow> None
         | e # es \<Rightarrow>
             if e = CHR ''u'' then
               (case es of
                  h1 # h2 # h3 # h4 # rest \<Rightarrow>
                    consUnit (hexUnit (hexValue h1) (hexValue h2) (hexValue h3) (hexValue h4))
                      (decodeString rest)
                | _ \<Rightarrow> None)
             else consUnit (simpleEscape e) (decodeString es))
      else if c = CHR 0x22 \<or> (of_char c :: nat) < 32 then None
      else consUnit (Some (of_char c)) (decodeString cs))"

text \<open>
  A numeral is \<^verbatim>\<open>-? (0 | [1-9][0-9]*) (. [0-9]+)? ([eE] [+-]? [0-9]+)?\<close>. The token is the
  longest run of characters that a numeral can hold; a run that is not a numeral is a syntax
  error (two values never stand side by side, so no shorter token could succeed).
\<close>

definition isNumberChar :: "char \<Rightarrow> bool" where
  "isNumberChar c =
     (isDigit c \<or> c = CHR ''-'' \<or> c = CHR ''+'' \<or> c = CHR ''.'' \<or> c = CHR ''e'' \<or> c = CHR ''E'')"

definition digitsValue :: "string \<Rightarrow> int" where
  "digitsValue ds = foldl (\<lambda>acc c. acc * 10 + (of_char c - 48)) 0 ds"

definition parseNumber :: "string \<Rightarrow> json option" where
  "parseNumber s =
     (let negative = startsWith s ''-'';
          s1 = (if negative then tl s else s);
          intDigits = takeWhile isDigit s1;
          s2 = dropWhile isDigit s1;
          hasFraction = startsWith s2 ''.'';
          fracDigits = (if hasFraction then takeWhile isDigit (tl s2) else []);
          s3 = (if hasFraction then dropWhile isDigit (tl s2) else s2);
          hasExponent = (startsWith s3 ''e'' \<or> startsWith s3 ''E'');
          s4 = (if hasExponent then tl s3 else s3);
          expNegative = startsWith s4 ''-'';
          expDigits = (if startsWith s4 ''-'' \<or> startsWith s4 ''+'' then tl s4 else s4);
          exponent = (if hasExponent then digitsValue expDigits else 0)
      in if intDigits \<noteq> [] \<and> (length intDigits = 1 \<or> hd intDigits \<noteq> CHR ''0'')
            \<and> (if hasFraction then fracDigits \<noteq> [] else True)
            \<and> (if hasExponent then expDigits \<noteq> [] \<and> list_all isDigit expDigits else s3 = [])
         then Some (JNumber negative (digitsValue (intDigits @ fracDigits))
                      ((if expNegative then - exponent else exponent) - int (length fracDigits)))
         else None)"

datatype token =
    BraceOpen | BraceClose | BracketOpen | BracketClose | Colon | Comma | Scalar json

text \<open>
  The token that starts with the character \<open>c\<close>, followed by \<open>cs\<close>, and the number of
  characters of \<open>cs\<close> that belong to it.
\<close>

fun withLength :: "nat \<Rightarrow> json option \<Rightarrow> (token \<times> nat) option" where
  "withLength n (Some v) = Some (Scalar v, n)"
| "withLength n None = None"

fun stringToken :: "string \<Rightarrow> nat option \<Rightarrow> (token \<times> nat) option" where
  "stringToken cs (Some n) = withLength (Suc n) (map_option JString (decodeString (take n cs)))"
| "stringToken cs None = None"

definition nextToken :: "char \<Rightarrow> string \<Rightarrow> (token \<times> nat) option" where
  "nextToken c cs =
     (if c = CHR ''{'' then Some (BraceOpen, 0)
      else if c = CHR ''}'' then Some (BraceClose, 0)
      else if c = CHR ''['' then Some (BracketOpen, 0)
      else if c = CHR '']'' then Some (BracketClose, 0)
      else if c = CHR '':'' then Some (Colon, 0)
      else if c = CHR '','' then Some (Comma, 0)
      else if c = CHR 0x22 then stringToken cs (stringEnd cs)
      else if c = CHR ''-'' \<or> isDigit c then
        withLength (length (takeWhile isNumberChar cs))
          (parseNumber (c # takeWhile isNumberChar cs))
      else if startsWith (c # cs) ''true'' then Some (Scalar (JBoolean True), 3)
      else if startsWith (c # cs) ''false'' then Some (Scalar (JBoolean False), 4)
      else if startsWith (c # cs) ''null'' then Some (Scalar JNull, 3)
      else None)"

fun consToken :: "token \<Rightarrow> token list option \<Rightarrow> token list option" where
  "consToken t (Some ts) = Some (t # ts)"
| "consToken t None = None"

fun tokenize :: "string \<Rightarrow> token list option" where
  "tokenize [] = Some []"
| "tokenize (c # cs) =
     (if isJsonWhitespace c then tokenize cs
      else
        (case nextToken c cs of
           None \<Rightarrow> None
         | Some (t, n) \<Rightarrow> consToken t (tokenize (drop n cs))))"

text \<open>
  The grammar over tokens, read from left to right with a stack of the arrays and objects
  that are still open. A frame holds the elements or members read so far, the last one
  first; \<open>InMember\<close> also holds the key whose value is being read.
\<close>

datatype frame =
    InArray "json list"
  | InObject "(utf16 \<times> json) list"
  | InMember "(utf16 \<times> json) list" utf16

datatype expecting =
    AValue | AValueOrClose | AKey | AKeyOrClose | AColon | ASeparator | TheEnd json

fun completed :: "json \<Rightarrow> frame list \<Rightarrow> (expecting \<times> frame list) option" where
  "completed v [] = Some (TheEnd v, [])"
| "completed v (InArray elements # stack) = Some (ASeparator, InArray (v # elements) # stack)"
| "completed v (InMember members key # stack) =
     Some (ASeparator, InObject ((key, v) # members) # stack)"
| "completed v (InObject members # stack) = None"

fun startValue :: "frame list \<Rightarrow> token \<Rightarrow> (expecting \<times> frame list) option" where
  "startValue stack (Scalar v) = completed v stack"
| "startValue stack BraceOpen = Some (AKeyOrClose, InObject [] # stack)"
| "startValue stack BracketOpen = Some (AValueOrClose, InArray [] # stack)"
| "startValue stack t = None"

fun readKey :: "frame list \<Rightarrow> token \<Rightarrow> (expecting \<times> frame list) option" where
  "readKey (InObject members # stack) (Scalar (JString key)) =
     Some (AColon, InMember members key # stack)"
| "readKey stack t = None"

fun closeArray :: "frame list \<Rightarrow> (expecting \<times> frame list) option" where
  "closeArray (InArray elements # stack) = completed (JArray (rev elements)) stack"
| "closeArray stack = None"

fun closeObject :: "frame list \<Rightarrow> (expecting \<times> frame list) option" where
  "closeObject (InObject members # stack) = completed (JObject (rev members)) stack"
| "closeObject stack = None"

fun afterComma :: "frame list \<Rightarrow> (expecting \<times> frame list) option" where
  "afterComma (InArray elements # stack) = Some (AValue, InArray elements # stack)"
| "afterComma (InObject members # stack) = Some (AKey, InObject members # stack)"
| "afterComma stack = None"

fun parseStep :: "expecting \<Rightarrow> frame list \<Rightarrow> token \<Rightarrow> (expecting \<times> frame list) option" where
  "parseStep AValue stack t = startValue stack t"
| "parseStep AValueOrClose stack t =
     (if t = BracketClose then closeArray stack else startValue stack t)"
| "parseStep AKey stack t = readKey stack t"
| "parseStep AKeyOrClose stack t =
     (if t = BraceClose then closeObject stack else readKey stack t)"
| "parseStep AColon stack t = (if t = Colon then Some (AValue, stack) else None)"
| "parseStep ASeparator stack t =
     (if t = Comma then afterComma stack
      else if t = BracketClose then closeArray stack
      else if t = BraceClose then closeObject stack
      else None)"
| "parseStep (TheEnd v) stack t = None"

fun parseTokens :: "(expecting \<times> frame list) option \<Rightarrow> token list \<Rightarrow> json option" where
  "parseTokens None ts = None"
| "parseTokens (Some (TheEnd v, stack)) [] = Some v"
| "parseTokens (Some (e, stack)) [] = None"
| "parseTokens (Some (e, stack)) (t # ts) = parseTokens (parseStep e stack t) ts"

fun parseResult :: "json option \<Rightarrow> js_error + json" where
  "parseResult (Some v) = Inr v"
| "parseResult None = Inl SyntaxError"

fun parseTokenList :: "token list option \<Rightarrow> js_error + json" where
  "parseTokenList (Some ts) = parseResult (parseTokens (Some (AValue, [])) ts)"
| "parseTokenList None = Inl SyntaxError"

definition JSON_parse :: "string \<Rightarrow> js_error + json" where
  "JSON_parse text = parseTokenList (tokenize text)"

subsection \<open>Property access, truthiness and \<^verbatim>\<open>String(value)\<close> on parsed values\<close>

text \<open>
  \<^verbatim>\<open>value?.error\<close> and \<^verbatim>\<open>value.code\<close>: the own property of an object, the last of several
  members with the same key, and \<^verbatim>\<open>undefined\<close> (here \<open>None\<close>) otherwise. No prototype
  defines a property of either name, so arrays, strings, numbers and booleans give
  \<^verbatim>\<open>undefined\<close>, and \<^verbatim>\<open>?.\<close> gives it for \<^verbatim>\<open>null\<close>.
\<close>

fun getProperty :: "utf16 \<Rightarrow> json \<Rightarrow> json option" where
  "getProperty key (JObject members) = map_of (rev members) key"
| "getProperty key v = None"

fun isZero :: "binary64 \<Rightarrow> bool" where
  "isZero (Finite n p) = (n = 0)"
| "isZero Infinity = False"

fun truthy :: "json \<Rightarrow> bool" where
  "truthy JNull = False"
| "truthy (JBoolean b) = b"
| "truthy (JNumber negative digits scale) = (\<not> isZero (numberValue digits scale))"
| "truthy (JString s) = (s \<noteq> [])"
| "truthy (JArray elements) = True"
| "truthy (JObject members) = True"

text \<open>
  \<^verbatim>\<open>String(value)\<close>. An array is joined with commas, \<^verbatim>\<open>null\<close> elements giving the empty
  string. An object gives \<^verbatim>\<open>[object Object]\<close> through \<^verbatim>\<open>Object.prototype.toString\<close>,
  unless it has a member named \<^verbatim>\<open>toString\<close>: that member is not callable, and
  \<^verbatim>\<open>valueOf\<close> is not callable or returns the object, so the conversion throws a
  \<^verbatim>\<open>TypeError\<close>.
\<close>

fun appendJoined :: "js_error + utf16 \<Rightarrow> js_error + utf16 \<Rightarrow> js_error + utf16" where
  "appendJoined (Inl e) r = Inl e"
| "appendJoined (Inr s) (Inl e) = Inl e"
| "appendJoined (Inr s) (Inr r) = Inr (s @ [44] @ r)"

fun toStringJson :: "json \<Rightarrow> js_error + utf16"
  and elementString :: "json \<Rightarrow> js_error + utf16"
  and joinElements :: "json list \<Rightarrow> js_error + utf16" where
  "toStringJson JNull = Inr (utf16 ''null'')"
| "toStringJson (JBoolean b) = Inr (if b then utf16 ''true'' else utf16 ''false'')"
| "toStringJson (JNumber negative digits scale) = Inr (numberToString negative digits scale)"
| "toStringJson (JString s) = Inr s"
| "toStringJson (JArray elements) = joinElements elements"
| "toStringJson (JObject members) =
     (if map_of members (utf16 ''toString'') = None then Inr (utf16 ''[object Object]'')
      else Inl TypeError)"
| "elementString JNull = Inr []"
| "elementString (JBoolean b) = toStringJson (JBoolean b)"
| "elementString (JNumber negative digits scale) = toStringJson (JNumber negative digits scale)"
| "elementString (JString s) = toStringJson (JString s)"
| "elementString (JArray elements) = toStringJson (JArray elements)"
| "elementString (JObject members) = toStringJson (JObject members)"
| "joinElements [] = Inr []"
| "joinElements [v] = elementString v"
| "joinElements (v # w # ws) = appendJoined (elementString v) (joinElements (w # ws))"

section \<open>\<^verbatim>\<open>handleApiError\<close>\<close>

subsection \<open>The caught value and the effects\<close>

text \<open>
  The parameter has the type \<^verbatim>\<open>unknown\<close>. The function inspects it in two ways only:
  \<^verbatim>\<open>error instanceof Error\<close>, after which it reads \<^verbatim>\<open>error.message\<close> (a string by the
  declaration of \<^verbatim>\<open>Error\<close>), and otherwise \<^verbatim>\<open>String(error)\<close>. The conversion yields a
  string for every primitive value and for an object whose \<^verbatim>\<open>toString\<close> or \<^verbatim>\<open>valueOf\<close>
  returns a primitive; it throws a \<^verbatim>\<open>TypeError\<close> for an object with neither (such as
  \<^verbatim>\<open>Object.create(null)\<close>), and whatever a \<^verbatim>\<open>toString\<close> of the object throws. A caught
  value is represented by what these inspections give.
\<close>

datatype raw_error =
    ErrorInstance string
  | OtherValue "js_error + string"

datatype effect =
    ConsoleError raw_error
  | ErrorWebhook raw_error
  | Dispatch string

text \<open>
  Modelled from the spec: \<^verbatim>\<open>triggerErrorWebhook\<close> (module \<^verbatim>\<open>webhookService\<close>) and
  \<^verbatim>\<open>eventBus.dispatch\<close> (module \<^verbatim>\<open>eventBus\<close>) are imported by the source file and are not
  part of it. The spec gives both as one-way operations: the notification sink takes the raw
  error, no return value is consulted and its failures are not propagated back; the event
  bus publishes a signal that is only a name. A call is recorded in the log of effects and
  returns.
\<close>

definition triggerErrorWebhook :: "raw_error \<Rightarrow> effect list \<Rightarrow> effect list" where
  "triggerErrorWebhook error log = log @ [ErrorWebhook error]"

definition dispatch :: "string \<Rightarrow> effect list \<Rightarrow> effect list" where
  "dispatch signal log = log @ [Dispatch signal]"

definition consoleError :: "raw_error \<Rightarrow> effect list \<Rightarrow> effect list" where
  "consoleError error log = log @ [ConsoleError error]"

text \<open>Lines 16 to 21: the message, or the exception of \<^verbatim>\<open>String(error)\<close>.\<close>

fun messageOf :: "raw_error \<Rightarrow> js_error + string" where
  "messageOf (ErrorInstance message) = Inr message"
| "messageOf (OtherValue conversion) = conversion"

subsection \<open>Error code detection\<close>

text \<open>
  The variable \<^verbatim>\<open>errorCode\<close> is \<^verbatim>\<open>undefined\<close> (\<open>None\<close>) or a string; a test
  \<^verbatim>\<open>!errorCode\<close> holds for \<^verbatim>\<open>undefined\<close> and for the empty string.
\<close>

fun notCode :: "utf16 option \<Rightarrow> bool" where
  "notCode None = True"
| "notCode (Some code) = (code = [])"

text \<open>Lines 30 to 34, on the lower-cased message.\<close>

definition priorityCode :: "string \<Rightarrow> utf16 option" where
  "priorityCode lowerCaseMessage =
     (if includesStr lowerCaseMessage ''resource exhausted''
         \<or> includesStr lowerCaseMessage ''quota exceeded'' then Some (utf16 ''429'')
      else if includesStr lowerCaseMessage ''bad request''
           \<and> (includesStr lowerCaseMessage ''safety'' \<or> includesStr lowerCaseMessage ''filter'')
      then Some (utf16 ''400'')
      else None)"

text \<open>
  Lines 40 to 46, the body of the \<^verbatim>\<open>try\<close>: the new value of \<^verbatim>\<open>errorCode\<close> if the body
  assigns one, or the exception that \<^verbatim>\<open>JSON.parse\<close> or \<^verbatim>\<open>String\<close> throws.
\<close>

fun codeOfProperty :: "json option \<Rightarrow> js_error + utf16 option" where
  "codeOfProperty None = Inr None"
| "codeOfProperty (Some code) =
     (if truthy code then map_sum id Some (toStringJson code) else Inr None)"

fun codeOfError :: "json option \<Rightarrow> js_error + utf16 option" where
  "codeOfError None = Inr None"
| "codeOfError (Some err) = codeOfProperty (getProperty (utf16 ''code'') err)"

fun codeOfParsed :: "js_error + json \<Rightarrow> js_error + utf16 option" where
  "codeOfParsed (Inl e) = Inl e"
| "codeOfParsed (Inr errorObj) = codeOfError (getProperty (utf16 ''error'') errorObj)"

fun tryJsonCode :: "string option \<Rightarrow> js_error + utf16 option" where
  "tryJsonCode None = Inr None"
| "tryJsonCode (Some text) = codeOfParsed (JSON_parse text)"

text \<open>Line 47: the \<^verbatim>\<open>catch\<close> ignores the exception, and \<^verbatim>\<open>errorCode\<close> keeps its value.\<close>

fun catchIgnore :: "utf16 option \<Rightarrow> js_error + utf16 option \<Rightarrow> utf16 option" where
  "catchIgnore errorCode (Inl e) = errorCode"
| "catchIgnore errorCode (Inr None) = errorCode"
| "catchIgnore errorCode (Inr (Some code)) = Some code"

definition jsonCode :: "string \<Rightarrow> utf16 option \<Rightarrow> utf16 option" where
  "jsonCode message errorCode = catchIgnore errorCode (tryJsonCode (jsonMatch message))"

text \<open>Lines 50 to 55.\<close>

fun assignMatch :: "utf16 option \<Rightarrow> string option \<Rightarrow> utf16 option" where
  "assignMatch errorCode None = errorCode"
| "assignMatch errorCode (Some digits) = Some (utf16 digits)"

definition numericCode :: "string \<Rightarrow> utf16 option \<Rightarrow> utf16 option" where
  "numericCode message errorCode =
     (if notCode errorCode then assignMatch errorCode (codeMatch message) else errorCode)"

text \<open>Lines 58 to 68.\<close>

definition keywordCode :: "string \<Rightarrow> utf16 option \<Rightarrow> utf16 option" where
  "keywordCode lowerCaseMessage errorCode =
     (if notCode errorCode then
        (if includesStr lowerCaseMessage ''permission denied''
            \<or> includesStr lowerCaseMessage ''api key not valid'' then Some (utf16 ''403'')
         else if includesStr lowerCaseMessage ''bad request'' then Some (utf16 ''400'')
         else if includesStr lowerCaseMessage ''server error''
              \<or> includesStr lowerCaseMessage ''503'' then Some (utf16 ''500'')
         else if includesStr lowerCaseMessage ''failed to fetch'' then Some (utf16 ''NET'')
         else errorCode)
      else errorCode)"

text \<open>Lines 26 to 70: the value of \<^verbatim>\<open>errorCode\<close> at the end of the detection.\<close>

definition detectErrorCode :: "string \<Rightarrow> utf16 option" where
  "detectErrorCode message =
     (let lowerCaseMessage = toLowerCase message;
          errorCode = priorityCode lowerCaseMessage
      in if notCode errorCode then
           keywordCode lowerCaseMessage (numericCode message (jsonCode message errorCode))
         else errorCode)"

subsection \<open>Recovery flows and the message for the user\<close>

definition isAuthCode :: "utf16 option \<Rightarrow> bool" where
  "isAuthCode errorCode = (errorCode = Some (utf16 ''403'') \<or> errorCode = Some (utf16 ''401''))"

text \<open>Lines 92 to 102, the \<^verbatim>\<open>default\<close> branch of the \<^verbatim>\<open>switch\<close>.\<close>

definition defaultMessage :: "string \<Rightarrow> string" where
  "defaultMessage message =
     (if 150 < length (firstLineOf message)
         \<or> includesStr (firstLineOf message) ''[GoogleGenerativeAI Error]''
      then ''An unexpected error occurred. Please try again. If the problem persists, check the AI API Log for details.''
      else firstLineOf message)"

text \<open>Lines 86 to 103.\<close>

definition cannedMessage :: "utf16 option \<Rightarrow> string \<Rightarrow> string" where
  "cannedMessage errorCode message =
     (if errorCode = Some (utf16 ''400'') then
        ''Request blocked by safety filters. Please try a different prompt or image.''
      else if errorCode = Some (utf16 ''429'') then
        ''Server Penuh. Sila tunggu sebentar sebelum mencuba lagi.''
      else if errorCode = Some (utf16 ''500'') \<or> errorCode = Some (utf16 ''503'') then
        ''Google API is temporarily unavailable. Please try again in a few moments.''
      else if errorCode = Some (utf16 ''NET'') then
        ''Network error. Please check your internet connection.''
      else defaultMessage message)"

text \<open>Lines 23 to 103: what follows once the message is a string.\<close>

definition classifyMessage :: "string \<Rightarrow> effect list \<Rightarrow> effect list \<times> (js_error + string)" where
  "classifyMessage message log =
     (let lowerCaseMessage = toLowerCase message;
          errorCode = detectErrorCode message;
          isVeoError = includesStr lowerCaseMessage ''veo auth token''
      in if isAuthCode errorCode \<and> isVeoError then
           (dispatch ''initiateAutoVeoKeyClaim'' log,
            Inr ''VEO authorization failed. Please try again or check your API key.'')
         else if isAuthCode errorCode
              \<or> (errorCode = Some (utf16 ''400'')
                  \<and> includesStr lowerCaseMessage ''api key not valid'') then
           (dispatch ''initiateAutoApiKeyClaim'' log,
            Inr ''API Key is invalid or expired. Please try again or check your API key.'')
         else (log, Inr (cannedMessage errorCode message)))"

text \<open>
  The whole function: the effects in their order, and the returned string or the exception
  that reaches the caller.
\<close>

fun afterConversion ::
  "js_error + string \<Rightarrow> effect list \<Rightarrow> effect list \<times> (js_error + string)" where
  "afterConversion (Inl e) log = (log, Inl e)"
| "afterConversion (Inr message) log = classifyMessage message log"

definition handleApiError :: "raw_error \<Rightarrow> effect list \<times> (js_error + string)" where
  "handleApiError error =
     afterConversion (messageOf error) (triggerErrorWebhook error (consoleError error []))"

definition dispatched :: "effect list \<Rightarrow> string list" where
  "dispatched log = concat (map (\<lambda>e. case e of Dispatch signal \<Rightarrow> [signal] | _ \<Rightarrow> []) log)"

definition webhookCalls :: "effect list \<Rightarrow> raw_error list" where
  "webhookCalls log = concat (map (\<lambda>e. case e of ErrorWebhook error \<Rightarrow> [error] | _ \<Rightarrow> []) log)"

section \<open>Properties\<close>

subsection \<open>What the string primitives compute\<close>

text \<open>
  \<open>includesStr s t\<close> holds exactly when \<open>t\<close> occurs in \<open>s\<close>; the first line is the part
  of the text before its first line feed; the match of the brace pattern runs from the
  first opening brace of the message to its last closing brace.
\<close>

lemma startsWith_iff: "startsWith s t \<longleftrightarrow> (\<exists>after. s = t @ after)"
  by (induction s t rule: startsWith.induct) auto

lemma includesStr_iff: "includesStr s t \<longleftrightarrow> (\<exists>before after. s = before @ t @ after)"
proof (induction s)
  case Nil
  then show ?case by simp
next
  case (Cons c cs)
  show ?case
  proof
    assume "includesStr (c # cs) t"
    then consider "startsWith (c # cs) t" | "includesStr cs t" by auto
    then show "\<exists>before after. c # cs = before @ t @ after"
    proof cases
      case 1
      then obtain after where "c # cs = t @ after" by (auto simp add: startsWith_iff)
      then have "c # cs = [] @ t @ after" by simp
      then show ?thesis by blast
    next
      case 2
      then obtain before after where "cs = before @ t @ after" using Cons.IH by blast
      then have "c # cs = (c # before) @ t @ after" by simp
      then show ?thesis by blast
    qed
  next
    assume "\<exists>before after. c # cs = before @ t @ after"
    then obtain before after where split: "c # cs = before @ t @ after" by blast
    show "includesStr (c # cs) t"
    proof (cases before)
      case Nil
      with split have "startsWith (c # cs) t" by (auto simp add: startsWith_iff)
      then show ?thesis by simp
    next
      case (Cons b bs)
      with split have "cs = bs @ t @ after" by simp
      then have "includesStr cs t" using Cons.IH by blast
      then show ?thesis by simp
    qed
  qed
qed

lemma firstLineOf_no_line_feed: "CHR 0x0A \<notin> set (firstLineOf s)"
  by (auto simp add: firstLineOf_def dest: set_takeWhileD)

lemma firstLineOf_prefix: "\<exists>rest. s = firstLineOf s @ rest"
  unfolding firstLineOf_def by (metis takeWhile_dropWhile_id)

lemma jsonMatch_span:
  assumes "jsonMatch message = Some text"
  shows "\<exists>before inner after.
           message = before @ text @ after
           \<and> text = CHR ''{'' # inner @ [CHR ''}'']
           \<and> CHR ''{'' \<notin> set before \<and> CHR ''}'' \<notin> set after"
proof -
  let ?before = "takeWhile (\<lambda>c. c \<noteq> CHR ''{'') message"
  let ?tail = "dropWhile (\<lambda>c. c \<noteq> CHR ''{'') message"
  from assms obtain brace rest where tail: "?tail = brace # rest"
    by (auto simp add: jsonMatch_def split: list.splits)
  have brace: "brace = CHR ''{''"
    using hd_dropWhile [of "\<lambda>c. c \<noteq> CHR ''{''" message] tail by auto
  let ?after = "rev (takeWhile (\<lambda>c. c \<noteq> CHR ''}'') (rev rest))"
  let ?body = "rev (dropWhile (\<lambda>c. c \<noteq> CHR ''}'') (rev rest))"
  have split_rest: "rest = ?body @ ?after"
    using takeWhile_dropWhile_id [of "\<lambda>c. c \<noteq> CHR ''}''" "rev rest"]
    by (metis rev_append rev_rev_ident)
  have found: "?body \<noteq> [] \<and> text = brace # ?body"
  proof (cases "?body")
    case Nil
    with assms tail show ?thesis by (simp add: jsonMatch_def)
  next
    case (Cons c cs)
    with assms tail show ?thesis by (simp add: jsonMatch_def)
  qed
  then have body: "?body \<noteq> []" and shape: "text = brace # ?body"
    by simp_all
  from body have "dropWhile (\<lambda>c. c \<noteq> CHR ''}'') (rev rest) \<noteq> []" by simp
  then have "hd (dropWhile (\<lambda>c. c \<noteq> CHR ''}'') (rev rest)) = CHR ''}''"
    using hd_dropWhile [of "\<lambda>c. c \<noteq> CHR ''}''" "rev rest"] by auto
  then have "last ?body = CHR ''}''"
    using body by (simp add: last_rev)
  then obtain inner where inner: "?body = inner @ [CHR ''}'']"
    using body by (metis append_butlast_last_id)
  have "message = ?before @ ?tail" by simp
  then have "message = ?before @ text @ ?after"
    using tail shape split_rest by simp
  moreover have "text = CHR ''{'' # inner @ [CHR ''}'']"
    using shape brace inner by simp
  moreover have "CHR ''{'' \<notin> set ?before"
    by (auto dest: set_takeWhileD)
  moreover have "CHR ''}'' \<notin> set ?after"
    by (auto dest: set_takeWhileD)
  ultimately show ?thesis by blast
qed

subsection \<open>The primitives on concrete texts\<close>

text \<open>
  Each line is what the JavaScript expression of the same shape evaluates to.
\<close>

lemma toLowerCase_examples:
  "toLowerCase ''Quota EXCEEDED [Z@]'' = ''quota exceeded [z@]''"
  "toLowerCase [CHR 0xC0, CHR 0xC9, CHR 0xD7, CHR 0xDE, CHR 0xDF, CHR 0xFF] =
     [CHR 0xE0, CHR 0xE9, CHR 0xD7, CHR 0xFE, CHR 0xDF, CHR 0xFF]"
  by code_simp+

lemma jsonMatch_examples:
  "jsonMatch ''a {x} b {y} c'' = Some ''{x} b {y}''"
  "jsonMatch ''} a { b'' = None"
  "jsonMatch (''{'' @ [CHR 0x0A] @ ''}'') = Some (''{'' @ [CHR 0x0A] @ ''}'')"
  by code_simp+

lemma codeMatch_examples:
  "codeMatch ''error404 [4045] a_500 x 503. [429]'' = Some ''503''"
  "codeMatch ''see [429] or 503'' = Some ''429''"
  "codeMatch ''5034 v1.22'' = None"
  by code_simp+

lemma numberToString_examples:
  "numberToString False 403 0 = utf16 ''403''"
  "numberToString False 429 (- 2) = utf16 ''4.29''"
  "numberToString False 4030 (- 1) = utf16 ''403''"
  "numberToString True 25 (- 1) = utf16 ''-2.5''"
  "numberToString False 1 21 = utf16 ''1e+21''"
  "numberToString False 1 (- 6) = utf16 ''0.000001''"
  "numberToString False 1 (- 7) = utf16 ''1e-7''"
  by code_simp+

lemma JSON_parse_examples:
  \<open>JSON_parse ''{"a":[1,true,null],"b":{}}'' =
     Inr (JObject [(utf16 ''a'', JArray [JNumber False 1 0, JBoolean True, JNull]),
                   (utf16 ''b'', JObject [])])\<close>
  \<open>JSON_parse ''{"a":1,}'' = Inl SyntaxError\<close>
  \<open>JSON_parse ''{"a":01}'' = Inl SyntaxError\<close>
  \<open>JSON_parse ''{"a":1} {}'' = Inl SyntaxError\<close>
  by code_simp+

lemma toStringJson_examples:
  "toStringJson (JArray [JNumber False 1 0, JNull, JString (utf16 ''a''), JArray [JBoolean True]]) =
     Inr (utf16 ''1,,a,true'')"
  "toStringJson (JObject [(utf16 ''x'', JNull)]) = Inr (utf16 ''[object Object]'')"
  "toStringJson (JObject [(utf16 ''toString'', JNull)]) = Inl TypeError"
  by code_simp+

subsection \<open>Shape of a call\<close>

lemma initial_log:
  "triggerErrorWebhook error (consoleError error []) = [ConsoleError error, ErrorWebhook error]"
  by (simp add: triggerErrorWebhook_def consoleError_def)

lemma handle_message:
  "messageOf error = Inr message \<Longrightarrow>
   handleApiError error = classifyMessage message [ConsoleError error, ErrorWebhook error]"
  by (simp add: handleApiError_def initial_log)

lemma handle_exception:
  "messageOf error = Inl e \<Longrightarrow>
   handleApiError error = ([ConsoleError error, ErrorWebhook error], Inl e)"
  by (simp add: handleApiError_def initial_log)

lemma classify_veo:
  "isAuthCode (detectErrorCode message) \<Longrightarrow>
   includesStr (toLowerCase message) ''veo auth token'' \<Longrightarrow>
   classifyMessage message log =
     (log @ [Dispatch ''initiateAutoVeoKeyClaim''],
      Inr ''VEO authorization failed. Please try again or check your API key.'')"
  by (simp add: classifyMessage_def Let_def dispatch_def)

lemma classify_api_key:
  "\<not> (isAuthCode (detectErrorCode message) \<and> includesStr (toLowerCase message) ''veo auth token'') \<Longrightarrow>
   isAuthCode (detectErrorCode message)
     \<or> (detectErrorCode message = Some (utf16 ''400'')
         \<and> includesStr (toLowerCase message) ''api key not valid'') \<Longrightarrow>
   classifyMessage message log =
     (log @ [Dispatch ''initiateAutoApiKeyClaim''],
      Inr ''API Key is invalid or expired. Please try again or check your API key.'')"
  by (simp add: classifyMessage_def Let_def dispatch_def)

lemma classify_canned:
  "\<not> isAuthCode (detectErrorCode message) \<Longrightarrow>
   \<not> (detectErrorCode message = Some (utf16 ''400'')
       \<and> includesStr (toLowerCase message) ''api key not valid'') \<Longrightarrow>
   classifyMessage message log = (log, Inr (cannedMessage (detectErrorCode message) message))"
  by (auto simp add: classifyMessage_def Let_def)

lemma classify_cases:
  "classifyMessage message log =
     (log @ [Dispatch ''initiateAutoVeoKeyClaim''],
      Inr ''VEO authorization failed. Please try again or check your API key.'')
   \<or> classifyMessage message log =
     (log @ [Dispatch ''initiateAutoApiKeyClaim''],
      Inr ''API Key is invalid or expired. Please try again or check your API key.'')
   \<or> classifyMessage message log = (log, Inr (cannedMessage (detectErrorCode message) message))"
  by (simp add: classifyMessage_def Let_def dispatch_def)

lemma utf16_inject: "utf16 s = utf16 t \<longleftrightarrow> s = t"
  by (simp add: utf16_def inj_map_eq_map inj_on_def)

lemma priority_429:
  "includesStr (toLowerCase message) ''resource exhausted''
   \<or> includesStr (toLowerCase message) ''quota exceeded'' \<Longrightarrow>
   detectErrorCode message = Some (utf16 ''429'')"
  by (auto simp add: detectErrorCode_def priorityCode_def Let_def utf16_def)

lemma canned_length: "length (cannedMessage errorCode message) \<le> 150"
  by (simp add: cannedMessage_def defaultMessage_def)


lemma no_auth_429: "\<not> isAuthCode (Some (utf16 ''429''))"
  by (simp add: isAuthCode_def utf16_def)

lemma handle_cases:
  "(\<exists>e. handleApiError error = ([ConsoleError error, ErrorWebhook error], Inl e))
   \<or> handleApiError error =
       ([ConsoleError error, ErrorWebhook error] @ [Dispatch ''initiateAutoVeoKeyClaim''],
        Inr ''VEO authorization failed. Please try again or check your API key.'')
   \<or> handleApiError error =
       ([ConsoleError error, ErrorWebhook error] @ [Dispatch ''initiateAutoApiKeyClaim''],
        Inr ''API Key is invalid or expired. Please try again or check your API key.'')
   \<or> (\<exists>message. messageOf error = Inr message
        \<and> handleApiError error =
            ([ConsoleError error, ErrorWebhook error],
             Inr (cannedMessage (detectErrorCode message) message)))"
proof (cases "messageOf error")
  case (Inl e)
  then show ?thesis by (simp add: handle_exception)
next
  case (Inr message)
  then show ?thesis
    using classify_cases [of message "[ConsoleError error, ErrorWebhook error]"]
    by (auto simp add: handle_message)
qed

lemma string_returned_after_conversion:
  "messageOf error = Inr message \<Longrightarrow> \<exists>text. snd (handleApiError error) = Inr text"
  using classify_cases [of message "[ConsoleError error, ErrorWebhook error]"]
  by (auto simp add: handle_message)

lemma canned_is_veo:
  "cannedMessage errorCode message =
     ''VEO authorization failed. Please try again or check your API key.'' \<Longrightarrow>
   firstLineOf message = ''VEO authorization failed. Please try again or check your API key.''"
  by (simp add: cannedMessage_def defaultMessage_def split: if_splits)

lemma canned_is_api_key:
  "cannedMessage errorCode message =
     ''API Key is invalid or expired. Please try again or check your API key.'' \<Longrightarrow>
   firstLineOf message = ''API Key is invalid or expired. Please try again or check your API key.''"
  by (simp add: cannedMessage_def defaultMessage_def split: if_splits)

subsection \<open>The claims\<close>

text \<open>
  C1. The function is to return a string for every caught value and to raise nothing.
  The code misses one case: the conversion \<^verbatim>\<open>String(error)\<close> of line 20 stands outside
  the \<^verbatim>\<open>try\<close> of lines 39 to 47, so for a value whose conversion throws (for instance
  \<^verbatim>\<open>Object.create(null)\<close>, which has neither \<^verbatim>\<open>toString\<close> nor \<^verbatim>\<open>valueOf\<close>) the call
  logs the value, calls the webhook, and then raises that \<^verbatim>\<open>TypeError\<close> to its caller
  instead of returning a string.
\<close>

theorem conversion_exception_reaches_caller:
  "handleApiError (OtherValue (Inl TypeError)) =
     ([ConsoleError (OtherValue (Inl TypeError)), ErrorWebhook (OtherValue (Inl TypeError))],
      Inl TypeError)"
  by (simp add: handleApiError_def triggerErrorWebhook_def consoleError_def)

text \<open>
  C2. For every caught value the webhook is called exactly once, with that value, and
  the call is the second effect of the function, after the console log alone: before the
  message is built and the code derived, whether the function then returns or raises, and
  whatever the code is.
\<close>

theorem webhook_exactly_once_first:
  "webhookCalls (fst (handleApiError error)) = [error]
   \<and> take 2 (fst (handleApiError error)) = [ConsoleError error, ErrorWebhook error]"
  using handle_cases [of error] by (auto simp add: webhookCalls_def)

theorem webhook_exactly_once_first_witness:
  "webhookCalls (fst (handleApiError (ErrorInstance ''Something odd happened, look at the logs''))) =
     [ErrorInstance ''Something odd happened, look at the logs'']
   \<and> take 2 (fst (handleApiError (ErrorInstance ''Something odd happened, look at the logs''))) =
     [ConsoleError (ErrorInstance ''Something odd happened, look at the logs''),
      ErrorWebhook (ErrorInstance ''Something odd happened, look at the logs'')]"
  by (rule webhook_exactly_once_first)

text \<open>
  C3. When the lower-cased message contains \<^verbatim>\<open>resource exhausted\<close> or
  \<^verbatim>\<open>quota exceeded\<close>, the error code is \<^verbatim>\<open>429\<close> whatever else the text holds, no event is
  dispatched, and the capacity message is returned.
\<close>

theorem exhausted_is_429:
  assumes "messageOf error = Inr message"
    and "includesStr (toLowerCase message) ''resource exhausted''
         \<or> includesStr (toLowerCase message) ''quota exceeded''"
  shows "detectErrorCode message = Some (utf16 ''429'')
         \<and> handleApiError error =
             ([ConsoleError error, ErrorWebhook error],
              Inr ''Server Penuh. Sila tunggu sebentar sebelum mencuba lagi.'')"
proof -
  have code: "detectErrorCode message = Some (utf16 ''429'')"
    using assms(2) by (rule priority_429)
  have "classifyMessage message [ConsoleError error, ErrorWebhook error] =
          ([ConsoleError error, ErrorWebhook error],
           Inr (cannedMessage (detectErrorCode message) message))"
    by (rule classify_canned) (simp_all add: code no_auth_429 utf16_inject)
  then show ?thesis
    using assms(1) code by (simp add: handle_message cannedMessage_def utf16_inject)
qed

theorem exhausted_is_429_witness:
  \<open>includesStr (toLowerCase ''Resource Exhausted 500 {"error":{"code":403}}'') ''resource exhausted''
   \<and> detectErrorCode ''Resource Exhausted 500 {"error":{"code":403}}'' = Some (utf16 ''429'')
   \<and> handleApiError (ErrorInstance ''Resource Exhausted 500 {"error":{"code":403}}'') =
       ([ConsoleError (ErrorInstance ''Resource Exhausted 500 {"error":{"code":403}}''),
         ErrorWebhook (ErrorInstance ''Resource Exhausted 500 {"error":{"code":403}}'')],
        Inr ''Server Penuh. Sila tunggu sebentar sebelum mencuba lagi.'')\<close>
proof -
  have conv: \<open>messageOf (ErrorInstance ''Resource Exhausted 500 {"error":{"code":403}}'') =
      Inr ''Resource Exhausted 500 {"error":{"code":403}}''\<close>
    by simp
  have phrase: \<open>includesStr (toLowerCase ''Resource Exhausted 500 {"error":{"code":403}}'')
      ''resource exhausted''\<close>
    by code_simp
  then have either: \<open>includesStr (toLowerCase ''Resource Exhausted 500 {"error":{"code":403}}'')
        ''resource exhausted''
      \<or> includesStr (toLowerCase ''Resource Exhausted 500 {"error":{"code":403}}'')
        ''quota exceeded''\<close>
    by (rule disjI1)
  show ?thesis
    using exhausted_is_429 [OF conv either] phrase by simp
qed

text \<open>
  C4. When the error code is \<^verbatim>\<open>403\<close> or \<^verbatim>\<open>401\<close> and the lower-cased message contains
  \<^verbatim>\<open>veo auth token\<close>, the function dispatches \<^verbatim>\<open>initiateAutoVeoKeyClaim\<close>, nothing else,
  and returns the VEO message; the \<^verbatim>\<open>switch\<close> is not reached.
\<close>

theorem veo_recovery:
  assumes "messageOf error = Inr message"
    and "detectErrorCode message = Some (utf16 ''403'')
         \<or> detectErrorCode message = Some (utf16 ''401'')"
    and "includesStr (toLowerCase message) ''veo auth token''"
  shows "handleApiError error =
           ([ConsoleError error, ErrorWebhook error, Dispatch ''initiateAutoVeoKeyClaim''],
            Inr ''VEO authorization failed. Please try again or check your API key.'')"
proof -
  have "isAuthCode (detectErrorCode message)"
    using assms(2) by (simp add: isAuthCode_def)
  then show ?thesis
    using assms(1,3) by (simp add: handle_message classify_veo)
qed

theorem veo_recovery_witness:
  "detectErrorCode ''got status [401] veo auth token missing'' = Some (utf16 ''401'')
   \<and> includesStr (toLowerCase ''got status [401] veo auth token missing'') ''veo auth token''
   \<and> handleApiError (ErrorInstance ''got status [401] veo auth token missing'') =
       ([ConsoleError (ErrorInstance ''got status [401] veo auth token missing''),
         ErrorWebhook (ErrorInstance ''got status [401] veo auth token missing''),
         Dispatch ''initiateAutoVeoKeyClaim''],
        Inr ''VEO authorization failed. Please try again or check your API key.'')"
proof -
  have conv: "messageOf (ErrorInstance ''got status [401] veo auth token missing'') =
      Inr ''got status [401] veo auth token missing''"
    by simp
  have code: "detectErrorCode ''got status [401] veo auth token missing'' = Some (utf16 ''401'')"
    by code_simp
  then have either: "detectErrorCode ''got status [401] veo auth token missing'' = Some (utf16 ''403'')
      \<or> detectErrorCode ''got status [401] veo auth token missing'' = Some (utf16 ''401'')"
    by (rule disjI2)
  have phrase: "includesStr (toLowerCase ''got status [401] veo auth token missing'')
      ''veo auth token''"
    by code_simp
  show ?thesis
    using veo_recovery [OF conv either phrase] code phrase by simp
qed

text \<open>
  C5. When the error code is \<^verbatim>\<open>403\<close> or \<^verbatim>\<open>401\<close> and the lower-cased message lacks
  \<^verbatim>\<open>veo auth token\<close>, or the code is \<^verbatim>\<open>400\<close> and the lower-cased message contains
  \<^verbatim>\<open>api key not valid\<close>, the function dispatches \<^verbatim>\<open>initiateAutoApiKeyClaim\<close>, nothing
  else, and returns the API key message; so a code \<^verbatim>\<open>400\<close> with that phrase gives the API
  key message, not the safety filter message.
\<close>

theorem api_key_recovery:
  assumes "messageOf error = Inr message"
    and "((detectErrorCode message = Some (utf16 ''403'')
           \<or> detectErrorCode message = Some (utf16 ''401''))
          \<and> \<not> includesStr (toLowerCase message) ''veo auth token'')
         \<or> (detectErrorCode message = Some (utf16 ''400'')
             \<and> includesStr (toLowerCase message) ''api key not valid'')"
  shows "handleApiError error =
           ([ConsoleError error, ErrorWebhook error, Dispatch ''initiateAutoApiKeyClaim''],
            Inr ''API Key is invalid or expired. Please try again or check your API key.'')"
proof -
  have not_veo:
    "\<not> (isAuthCode (detectErrorCode message)
        \<and> includesStr (toLowerCase message) ''veo auth token'')"
    using assms(2) by (auto simp add: isAuthCode_def utf16_inject)
  have api:
    "isAuthCode (detectErrorCode message)
     \<or> (detectErrorCode message = Some (utf16 ''400'')
         \<and> includesStr (toLowerCase message) ''api key not valid'')"
    using assms(2) by (auto simp add: isAuthCode_def)
  show ?thesis
    using assms(1) classify_api_key [OF not_veo api] by (simp add: handle_message)
qed

theorem api_key_recovery_witness:
  "detectErrorCode ''Bad Request: safety; API key not valid'' = Some (utf16 ''400'')
   \<and> includesStr (toLowerCase ''Bad Request: safety; API key not valid'') ''api key not valid''
   \<and> handleApiError (ErrorInstance ''Bad Request: safety; API key not valid'') =
       ([ConsoleError (ErrorInstance ''Bad Request: safety; API key not valid''),
         ErrorWebhook (ErrorInstance ''Bad Request: safety; API key not valid''),
         Dispatch ''initiateAutoApiKeyClaim''],
        Inr ''API Key is invalid or expired. Please try again or check your API key.'')
   \<and> detectErrorCode ''Request failed with status code 403'' = Some (utf16 ''403'')
   \<and> \<not> includesStr (toLowerCase ''Request failed with status code 403'') ''veo auth token''
   \<and> handleApiError (ErrorInstance ''Request failed with status code 403'') =
       ([ConsoleError (ErrorInstance ''Request failed with status code 403''),
         ErrorWebhook (ErrorInstance ''Request failed with status code 403''),
         Dispatch ''initiateAutoApiKeyClaim''],
        Inr ''API Key is invalid or expired. Please try again or check your API key.'')"
proof -
  have conv: "messageOf (ErrorInstance ''Bad Request: safety; API key not valid'') =
      Inr ''Bad Request: safety; API key not valid''"
    by simp
  have code: "detectErrorCode ''Bad Request: safety; API key not valid'' = Some (utf16 ''400'')"
    by code_simp
  have phrase: "includesStr (toLowerCase ''Bad Request: safety; API key not valid'')
      ''api key not valid''"
    by code_simp
  have either:
    "((detectErrorCode ''Bad Request: safety; API key not valid'' = Some (utf16 ''403'')
        \<or> detectErrorCode ''Bad Request: safety; API key not valid'' = Some (utf16 ''401''))
       \<and> \<not> includesStr (toLowerCase ''Bad Request: safety; API key not valid'') ''veo auth token'')
     \<or> (detectErrorCode ''Bad Request: safety; API key not valid'' = Some (utf16 ''400'')
         \<and> includesStr (toLowerCase ''Bad Request: safety; API key not valid'')
             ''api key not valid'')"
    using code phrase by (intro disjI2 conjI)
  have conv': "messageOf (ErrorInstance ''Request failed with status code 403'') =
      Inr ''Request failed with status code 403''"
    by simp
  have code': "detectErrorCode ''Request failed with status code 403'' = Some (utf16 ''403'')"
    by code_simp
  have plain: "\<not> includesStr (toLowerCase ''Request failed with status code 403'')
      ''veo auth token''"
    by code_simp
  have either':
    "((detectErrorCode ''Request failed with status code 403'' = Some (utf16 ''403'')
        \<or> detectErrorCode ''Request failed with status code 403'' = Some (utf16 ''401''))
       \<and> \<not> includesStr (toLowerCase ''Request failed with status code 403'') ''veo auth token'')
     \<or> (detectErrorCode ''Request failed with status code 403'' = Some (utf16 ''400'')
         \<and> includesStr (toLowerCase ''Request failed with status code 403'')
             ''api key not valid'')"
    using code' plain by (intro disjI1 conjI)
  show ?thesis
    using api_key_recovery [OF conv either] api_key_recovery [OF conv' either']
      code phrase code' plain
    by simp
qed


text \<open>
  C6, as the code has it. When the priority keywords give no code, the text from the
  first opening brace to the last closing brace of the message (line feeds included) is
  parsed as JSON. If that succeeds, the parsed object has an \<^verbatim>\<open>error\<close> member with a
  \<^verbatim>\<open>code\<close> member, that value is truthy (not \<^verbatim>\<open>0\<close>, \<^verbatim>\<open>""\<close>, \<^verbatim>\<open>false\<close> or \<^verbatim>\<open>null\<close>) and its
  string form is not empty, then the string form is the error code. If parsing or the
  conversion throws, or no truthy \<^verbatim>\<open>error.code\<close> is there, nothing is assigned and the
  numeric and keyword passes decide. The message \<^verbatim>\<open>{"error":{"code":403}}\<close> gets the
  code \<^verbatim>\<open>403\<close>.
\<close>

theorem json_code_used:
  assumes "priorityCode (toLowerCase message) = None"
  shows "(jsonMatch message = Some text
          \<longrightarrow> (\<exists>before inner after.
                 message = before @ text @ after \<and> text = CHR ''{'' # inner @ [CHR ''}'']
                 \<and> CHR ''{'' \<notin> set before \<and> CHR ''}'' \<notin> set after))
         \<and> (jsonMatch message = Some text \<and> JSON_parse text = Inr errorObj
           \<and> getProperty (utf16 ''error'') errorObj = Some err
           \<and> getProperty (utf16 ''code'') err = Some code
           \<and> truthy code \<and> toStringJson code = Inr s \<and> s \<noteq> []
          \<longrightarrow> detectErrorCode message = Some s)
         \<and> (tryJsonCode (jsonMatch message) = Inl e
             \<or> tryJsonCode (jsonMatch message) = Inr None
          \<longrightarrow> detectErrorCode message =
                keywordCode (toLowerCase message) (numericCode message None))"
proof (intro conjI impI)
  assume "jsonMatch message = Some text"
  then show "\<exists>before inner after.
      message = before @ text @ after \<and> text = CHR ''{'' # inner @ [CHR ''}'']
      \<and> CHR ''{'' \<notin> set before \<and> CHR ''}'' \<notin> set after"
    by (rule jsonMatch_span)
next
  assume "jsonMatch message = Some text \<and> JSON_parse text = Inr errorObj
      \<and> getProperty (utf16 ''error'') errorObj = Some err
      \<and> getProperty (utf16 ''code'') err = Some code
      \<and> truthy code \<and> toStringJson code = Inr s \<and> s \<noteq> []"
  then show "detectErrorCode message = Some s"
    using assms
    by (simp add: detectErrorCode_def Let_def jsonCode_def numericCode_def keywordCode_def)
next
  assume "tryJsonCode (jsonMatch message) = Inl e
      \<or> tryJsonCode (jsonMatch message) = Inr None"
  then show "detectErrorCode message =
      keywordCode (toLowerCase message) (numericCode message None)"
    using assms
    by (auto simp add: detectErrorCode_def Let_def jsonCode_def)
qed


theorem json_code_used_witness:
  \<open>priorityCode (toLowerCase ''{"error":{"code":403}}'') = None
   \<and> jsonMatch ''{"error":{"code":403}}'' = Some ''{"error":{"code":403}}''
   \<and> JSON_parse ''{"error":{"code":403}}'' =
       Inr (JObject [(utf16 ''error'', JObject [(utf16 ''code'', JNumber False 403 0)])])
   \<and> toStringJson (JNumber False 403 0) = Inr (utf16 ''403'')
   \<and> detectErrorCode ''{"error":{"code":403}}'' = Some (utf16 ''403'')
   \<and> priorityCode (toLowerCase ''{"error":{"code":{"toString":1}}} bad request'') = None
   \<and> tryJsonCode (jsonMatch ''{"error":{"code":{"toString":1}}} bad request'') = Inl TypeError
   \<and> detectErrorCode ''{"error":{"code":{"toString":1}}} bad request'' = Some (utf16 ''400'')\<close>
proof -
  have priority: \<open>priorityCode (toLowerCase ''{"error":{"code":403}}'') = None\<close>
    by code_simp
  have span: \<open>jsonMatch ''{"error":{"code":403}}'' = Some ''{"error":{"code":403}}''\<close>
    by code_simp
  have parsed: \<open>JSON_parse ''{"error":{"code":403}}'' =
      Inr (JObject [(utf16 ''error'', JObject [(utf16 ''code'', JNumber False 403 0)])])\<close>
    by code_simp
  have err: "getProperty (utf16 ''error'')
      (JObject [(utf16 ''error'', JObject [(utf16 ''code'', JNumber False 403 0)])]) =
      Some (JObject [(utf16 ''code'', JNumber False 403 0)])"
    by code_simp
  have code: "getProperty (utf16 ''code'') (JObject [(utf16 ''code'', JNumber False 403 0)]) =
      Some (JNumber False 403 0)"
    by code_simp
  have true: "truthy (JNumber False 403 0)"
    by code_simp
  have string: "toStringJson (JNumber False 403 0) = Inr (utf16 ''403'')"
    by code_simp
  have filled: "utf16 ''403'' \<noteq> []"
    by (simp add: utf16_def)
  have used: \<open>detectErrorCode ''{"error":{"code":403}}'' = Some (utf16 ''403'')\<close>
    using json_code_used [OF priority,
        of \<open>''{"error":{"code":403}}''\<close>
           "JObject [(utf16 ''error'', JObject [(utf16 ''code'', JNumber False 403 0)])]"
           "JObject [(utf16 ''code'', JNumber False 403 0)]"
           "JNumber False 403 0" "utf16 ''403''" SyntaxError]
      span parsed err code true string filled
    by simp
  have priority': \<open>priorityCode (toLowerCase ''{"error":{"code":{"toString":1}}} bad request'') =
      None\<close>
    by code_simp
  have thrown: \<open>tryJsonCode (jsonMatch ''{"error":{"code":{"toString":1}}} bad request'') =
      Inl TypeError\<close>
    by code_simp
  have later: \<open>keywordCode (toLowerCase ''{"error":{"code":{"toString":1}}} bad request'')
      (numericCode ''{"error":{"code":{"toString":1}}} bad request'' None) = Some (utf16 ''400'')\<close>
    by code_simp
  have ignored: \<open>detectErrorCode ''{"error":{"code":{"toString":1}}} bad request'' =
      Some (utf16 ''400'')\<close>
    using json_code_used [OF priority', of "[]" JNull JNull JNull "[]" TypeError] thrown later
    by simp
  show ?thesis
    using priority span parsed string used priority' thrown ignored by simp
qed


text \<open>
  C6, as stated, fails: the message below parses, and its \<^verbatim>\<open>error.code\<close> member is
  there with the value \<^verbatim>\<open>0\<close>, whose string form is \<^verbatim>\<open>0\<close>; the code is not \<^verbatim>\<open>0\<close> but the
  \<^verbatim>\<open>403\<close> of the keyword pass, and the API key flow starts.
\<close>

theorem falsy_json_code_not_used:
  \<open>priorityCode (toLowerCase ''{"error":{"code":0}} permission denied'') = None
   \<and> jsonMatch ''{"error":{"code":0}} permission denied'' = Some ''{"error":{"code":0}}''
   \<and> JSON_parse ''{"error":{"code":0}}'' =
       Inr (JObject [(utf16 ''error'', JObject [(utf16 ''code'', JNumber False 0 0)])])
   \<and> getProperty (utf16 ''code'') (JObject [(utf16 ''code'', JNumber False 0 0)]) =
       Some (JNumber False 0 0)
   \<and> toStringJson (JNumber False 0 0) = Inr (utf16 ''0'')
   \<and> detectErrorCode ''{"error":{"code":0}} permission denied'' = Some (utf16 ''403'')
   \<and> detectErrorCode ''{"error":{"code":0}} permission denied'' \<noteq> Some (utf16 ''0'')
   \<and> snd (handleApiError (ErrorInstance ''{"error":{"code":0}} permission denied'')) =
       Inr ''API Key is invalid or expired. Please try again or check your API key.''\<close>
  by code_simp

text \<open>
  C7. A call dispatches at most one event, and a dispatched event is
  \<^verbatim>\<open>initiateAutoVeoKeyClaim\<close> or \<^verbatim>\<open>initiateAutoApiKeyClaim\<close>.
\<close>

theorem at_most_one_dispatch:
  "length (dispatched (fst (handleApiError error))) \<le> 1
   \<and> set (dispatched (fst (handleApiError error)))
       \<subseteq> {''initiateAutoVeoKeyClaim'', ''initiateAutoApiKeyClaim''}"
  using handle_cases [of error] by (auto simp add: dispatched_def)

theorem at_most_one_dispatch_witness:
  "length (dispatched (fst (handleApiError (ErrorInstance ''got status [403] veo auth token'')))) \<le> 1
   \<and> set (dispatched (fst (handleApiError (ErrorInstance ''got status [403] veo auth token''))))
       \<subseteq> {''initiateAutoVeoKeyClaim'', ''initiateAutoApiKeyClaim''}"
  by (rule at_most_one_dispatch)

text \<open>
  C8, as the code has it. When no error code is found, the first line of the message
  is 40 characters long and it does not contain \<^verbatim>\<open>[GoogleGenerativeAI Error]\<close>, the
  function returns that first line unchanged and dispatches nothing.
\<close>

theorem short_first_line_returned:
  assumes "messageOf error = Inr message"
    and "detectErrorCode message = None"
    and "length (firstLineOf message) = 40"
    and "\<not> includesStr (firstLineOf message) ''[GoogleGenerativeAI Error]''"
  shows "handleApiError error =
           ([ConsoleError error, ErrorWebhook error], Inr (firstLineOf message))"
proof -
  have "classifyMessage message [ConsoleError error, ErrorWebhook error] =
          ([ConsoleError error, ErrorWebhook error],
           Inr (cannedMessage (detectErrorCode message) message))"
    by (rule classify_canned) (simp_all add: assms(2) isAuthCode_def)
  then show ?thesis
    using assms by (simp add: handle_message cannedMessage_def defaultMessage_def)
qed

theorem short_first_line_returned_witness:
  "detectErrorCode ''Something odd happened, look at the logs'' = None
   \<and> length (firstLineOf ''Something odd happened, look at the logs'') = 40
   \<and> \<not> includesStr (firstLineOf ''Something odd happened, look at the logs'')
         ''[GoogleGenerativeAI Error]''
   \<and> handleApiError (ErrorInstance ''Something odd happened, look at the logs'') =
       ([ConsoleError (ErrorInstance ''Something odd happened, look at the logs''),
         ErrorWebhook (ErrorInstance ''Something odd happened, look at the logs'')],
        Inr ''Something odd happened, look at the logs'')"
proof -
  have conv: "messageOf (ErrorInstance ''Something odd happened, look at the logs'') =
      Inr ''Something odd happened, look at the logs''"
    by simp
  have code: "detectErrorCode ''Something odd happened, look at the logs'' = None"
    by code_simp
  have line: "firstLineOf ''Something odd happened, look at the logs'' =
      ''Something odd happened, look at the logs''"
    by code_simp
  have len: "length (firstLineOf ''Something odd happened, look at the logs'') = 40"
    by (simp add: line)
  have tag: "\<not> includesStr (firstLineOf ''Something odd happened, look at the logs'')
      ''[GoogleGenerativeAI Error]''"
    by code_simp
  show ?thesis
    using short_first_line_returned [OF conv code len tag] code len tag line by simp
qed

text \<open>
  C8, as stated, fails: the message below has no error code and one line of 40
  characters, and the function returns the generic message instead of that line, because
  the line contains \<^verbatim>\<open>[GoogleGenerativeAI Error]\<close>.
\<close>

theorem tagged_first_line_replaced:
  "detectErrorCode ''[GoogleGenerativeAI Error]: it went bad!'' = None
   \<and> firstLineOf ''[GoogleGenerativeAI Error]: it went bad!'' =
       ''[GoogleGenerativeAI Error]: it went bad!''
   \<and> length ''[GoogleGenerativeAI Error]: it went bad!'' = 40
   \<and> snd (handleApiError (ErrorInstance ''[GoogleGenerativeAI Error]: it went bad!'')) =
       Inr ''An unexpected error occurred. Please try again. If the problem persists, check the AI API Log for details.''
   \<and> snd (handleApiError (ErrorInstance ''[GoogleGenerativeAI Error]: it went bad!'')) \<noteq>
       Inr (firstLineOf ''[GoogleGenerativeAI Error]: it went bad!'')"
  by code_simp

text \<open>
  C9. A returned string has at most 150 characters.
\<close>

theorem returned_length_bound:
  "snd (handleApiError error) = Inr text \<Longrightarrow> length text \<le> 150"
  using handle_cases [of error] canned_length by auto

theorem returned_length_bound_witness:
  "snd (handleApiError (ErrorInstance ''Failed to fetch'')) =
     Inr ''Network error. Please check your internet connection.''
   \<and> length ''Network error. Please check your internet connection.'' \<le> 150"
proof -
  have returned: "snd (handleApiError (ErrorInstance ''Failed to fetch'')) =
      Inr ''Network error. Please check your internet connection.''"
    by code_simp
  show ?thesis
    using returned_length_bound [OF returned] returned by simp
qed

text \<open>
  C10, as the code has it. A call that dispatches \<^verbatim>\<open>initiateAutoVeoKeyClaim\<close> returns
  the VEO message, and one that dispatches \<^verbatim>\<open>initiateAutoApiKeyClaim\<close> returns the API key
  message. In the other direction, a call that returns one of these two messages has
  dispatched the matching event, and only it, unless the first line of the caught message
  is that very text.
\<close>

theorem signal_and_message:
  "(''initiateAutoVeoKeyClaim'' \<in> set (dispatched (fst (handleApiError error)))
      \<longrightarrow> snd (handleApiError error) =
            Inr ''VEO authorization failed. Please try again or check your API key.'')
   \<and> (''initiateAutoApiKeyClaim'' \<in> set (dispatched (fst (handleApiError error)))
      \<longrightarrow> snd (handleApiError error) =
            Inr ''API Key is invalid or expired. Please try again or check your API key.'')
   \<and> (messageOf error = Inr message
       \<and> snd (handleApiError error) =
           Inr ''VEO authorization failed. Please try again or check your API key.''
       \<and> firstLineOf message \<noteq>
           ''VEO authorization failed. Please try again or check your API key.''
      \<longrightarrow> dispatched (fst (handleApiError error)) = [''initiateAutoVeoKeyClaim''])
   \<and> (messageOf error = Inr message
       \<and> snd (handleApiError error) =
           Inr ''API Key is invalid or expired. Please try again or check your API key.''
       \<and> firstLineOf message \<noteq>
           ''API Key is invalid or expired. Please try again or check your API key.''
      \<longrightarrow> dispatched (fst (handleApiError error)) = [''initiateAutoApiKeyClaim''])"
  using handle_cases [of error] canned_is_veo canned_is_api_key
  by (auto simp add: dispatched_def)

theorem signal_and_message_witness:
  "dispatched (fst (handleApiError (ErrorInstance ''permission denied''))) =
     [''initiateAutoApiKeyClaim'']
   \<and> snd (handleApiError (ErrorInstance ''permission denied'')) =
       Inr ''API Key is invalid or expired. Please try again or check your API key.''
   \<and> dispatched (fst (handleApiError (ErrorInstance ''[403] veo auth token''))) =
     [''initiateAutoVeoKeyClaim'']
   \<and> snd (handleApiError (ErrorInstance ''[403] veo auth token'')) =
       Inr ''VEO authorization failed. Please try again or check your API key.''"
proof -
  have conv: "messageOf (ErrorInstance ''permission denied'') = Inr ''permission denied''"
    by simp
  have returned: "snd (handleApiError (ErrorInstance ''permission denied'')) =
      Inr ''API Key is invalid or expired. Please try again or check your API key.''"
    by code_simp
  have line: "firstLineOf ''permission denied'' \<noteq>
      ''API Key is invalid or expired. Please try again or check your API key.''"
    by code_simp
  have api: "dispatched (fst (handleApiError (ErrorInstance ''permission denied''))) =
      [''initiateAutoApiKeyClaim'']"
    using signal_and_message [of "ErrorInstance ''permission denied''" "''permission denied''"]
      conv returned line
    by simp
  have signal: "''initiateAutoVeoKeyClaim''
      \<in> set (dispatched (fst (handleApiError (ErrorInstance ''[403] veo auth token''))))"
    by code_simp
  have veo: "snd (handleApiError (ErrorInstance ''[403] veo auth token'')) =
      Inr ''VEO authorization failed. Please try again or check your API key.''"
    using signal_and_message [of "ErrorInstance ''[403] veo auth token''" "''[403] veo auth token''"]
      signal
    by simp
  have conv': "messageOf (ErrorInstance ''[403] veo auth token'') = Inr ''[403] veo auth token''"
    by simp
  have line': "firstLineOf ''[403] veo auth token'' \<noteq>
      ''VEO authorization failed. Please try again or check your API key.''"
    by code_simp
  have only: "dispatched (fst (handleApiError (ErrorInstance ''[403] veo auth token''))) =
      [''initiateAutoVeoKeyClaim'']"
    using signal_and_message [of "ErrorInstance ''[403] veo auth token''" "''[403] veo auth token''"]
      conv' veo line'
    by simp
  show ?thesis
    using api returned only veo by simp
qed


text \<open>
  C10, as stated, fails: the message below has no error code, so its first line is
  returned as it is; the function returns the VEO message and has dispatched nothing.
\<close>

theorem message_without_signal:
  "dispatched (fst (handleApiError
      (ErrorInstance ''VEO authorization failed. Please try again or check your API key.''))) = []
   \<and> snd (handleApiError
      (ErrorInstance ''VEO authorization failed. Please try again or check your API key.'')) =
     Inr ''VEO authorization failed. Please try again or check your API key.''"
  by code_simp

end
